theory Spec2Isabelle
  imports Complex_Main "HOL-Library.Sublist" "HOL-Library.Multiset"
begin

section \<open>JavaScript values used by \<^verbatim>\<open>main.js\<close>\<close>

text \<open>
  The script works on JavaScript numbers, on \<^verbatim>\<open>null\<close>/\<^verbatim>\<open>undefined\<close> and on strings.
  A JavaScript number is modelled as a real or \<^verbatim>\<open>NaN\<close>; the two infinities are not part of
  the model. The operations of this section compute exactly, without the rounding of IEEE
  doubles: they are the script's operations where no result needs rounding (whole dollar
  amounts, years, scores). The rounded addition and the sums of the line chart computed
  with it come in a section of their own below.
\<close>

datatype jsnum = NaN | Num real

datatype jsval = Undefined | Null | Number jsnum

fun js_add :: "jsnum \<Rightarrow> jsnum \<Rightarrow> jsnum" where
  "js_add (Num a) (Num b) = Num (a + b)"
| "js_add _ _ = NaN"

fun js_sub :: "jsnum \<Rightarrow> jsnum \<Rightarrow> jsnum" where
  "js_sub (Num a) (Num b) = Num (a - b)"
| "js_sub _ _ = NaN"

fun js_mul :: "jsnum \<Rightarrow> jsnum \<Rightarrow> jsnum" where
  "js_mul (Num a) (Num b) = Num (a * b)"
| "js_mul _ _ = NaN"

text \<open>
  Division by zero gives an infinity in JavaScript (\<^verbatim>\<open>NaN\<close> for \<^verbatim>\<open>0/0\<close>); the model has no
  infinities and answers \<^verbatim>\<open>NaN\<close>. Every division made by the code below is guarded by a
  test that its divisor is not zero.
\<close>

fun js_div :: "jsnum \<Rightarrow> jsnum \<Rightarrow> jsnum" where
  "js_div (Num a) (Num b) = (if b = 0 then NaN else Num (a / b))"
| "js_div _ _ = NaN"

fun is_NaN :: "jsnum \<Rightarrow> bool" where
  "is_NaN NaN = True"
| "is_NaN (Num _) = False"

text \<open>Truthiness of a number: \<^verbatim>\<open>0\<close> and \<^verbatim>\<open>NaN\<close> are falsy.\<close>

fun truthy :: "jsnum \<Rightarrow> bool" where
  "truthy NaN = False"
| "truthy (Num a) = (a \<noteq> 0)"

text \<open>\<^verbatim>\<open>ToNumber\<close> (unary plus) on a non-string value.\<close>

fun ToNumber :: "jsval \<Rightarrow> jsnum" where
  "ToNumber Undefined = NaN"
| "ToNumber Null = Num 0"
| "ToNumber (Number n) = n"

text \<open>\<^verbatim>\<open>v != null\<close>: loose inequality, false exactly for \<^verbatim>\<open>null\<close> and \<^verbatim>\<open>undefined\<close>.\<close>

fun neq_null :: "jsval \<Rightarrow> bool" where
  "neq_null Undefined = False"
| "neq_null Null = False"
| "neq_null (Number _) = True"

text \<open>The relational operators on numbers: any comparison with \<^verbatim>\<open>NaN\<close> is false.\<close>

fun num_lt :: "jsnum \<Rightarrow> jsnum \<Rightarrow> bool" where
  "num_lt (Num a) (Num b) = (a < b)"
| "num_lt _ _ = False"

fun num_ge :: "jsnum \<Rightarrow> jsnum \<Rightarrow> bool" where
  "num_ge (Num a) (Num b) = (b \<le> a)"
| "num_ge _ _ = False"

definition js_lt :: "jsval \<Rightarrow> jsval \<Rightarrow> bool" where
  "js_lt a b = num_lt (ToNumber a) (ToNumber b)"

definition js_ge :: "jsval \<Rightarrow> jsval \<Rightarrow> bool" where
  "js_ge a b = num_ge (ToNumber a) (ToNumber b)"

section \<open>Unary plus on the text of a CSV cell\<close>

text \<open>
  \<^verbatim>\<open>d3.csv\<close> hands every cell over as a string, and the loader applies unary plus to it.
  \<^verbatim>\<open>string_to_number\<close> follows ECMAScript's \<^verbatim>\<open>StringToNumber\<close> on ASCII text: white space
  is trimmed, the empty text is \<^verbatim>\<open>0\<close>, a signed decimal literal with optional fraction
  and exponent or an unsigned \<^verbatim>\<open>0x\<close>/\<^verbatim>\<open>0o\<close>/\<^verbatim>\<open>0b\<close> literal is its value, and anything else is
  \<^verbatim>\<open>NaN\<close>. The literal \<^verbatim>\<open>Infinity\<close> has no value in the number model and is not recognised.
\<close>

definition is_space :: "char \<Rightarrow> bool" where
  "is_space c = ((of_char c :: nat) \<in> {9, 10, 11, 12, 13, 32})"

definition is_digit :: "char \<Rightarrow> bool" where
  "is_digit c = (48 \<le> (of_char c :: nat) \<and> (of_char c :: nat) \<le> 57)"

definition trim :: "string \<Rightarrow> string" where
  "trim s = rev (dropWhile is_space (rev (dropWhile is_space s)))"

text \<open>The value of a digit in a base, if it is one: \<^verbatim>\<open>0-9\<close>, \<^verbatim>\<open>a-f\<close>, \<^verbatim>\<open>A-F\<close>.\<close>

definition digit_in :: "nat \<Rightarrow> char \<Rightarrow> nat option" where
  "digit_in base c =
     (let n = (of_char c :: nat);
          v = (if 48 \<le> n \<and> n \<le> 57 then Some (n - 48)
               else if 97 \<le> n \<and> n \<le> 102 then Some (n - 87)
               else if 65 \<le> n \<and> n \<le> 70 then Some (n - 55)
               else None)
      in case v of None \<Rightarrow> None | Some d \<Rightarrow> if d < base then Some d else None)"

fun digits_in :: "nat \<Rightarrow> nat \<Rightarrow> string \<Rightarrow> nat option" where
  "digits_in base acc [] = Some acc"
| "digits_in base acc (c # cs) =
     (case digit_in base c of
        None \<Rightarrow> None
      | Some d \<Rightarrow> digits_in base (base * acc + d) cs)"

text \<open>One or more digits of the base, read as a natural number.\<close>

definition numeral_in :: "nat \<Rightarrow> string \<Rightarrow> nat option" where
  "numeral_in base s = (if s = [] then None else digits_in base 0 s)"

text \<open>The exponent part: nothing, or \<^verbatim>\<open>e\<close>/\<^verbatim>\<open>E\<close>, an optional sign and digits.\<close>

definition exponent_part :: "string \<Rightarrow> int option" where
  "exponent_part s =
     (case s of
        [] \<Rightarrow> Some 0
      | c # t \<Rightarrow>
          if c = CHR ''e'' \<or> c = CHR ''E'' then
            (case t of
               [] \<Rightarrow> None
             | d # u \<Rightarrow>
                 if d = CHR ''-'' then map_option (\<lambda>n. - int n) (numeral_in 10 u)
                 else if d = CHR ''+'' then map_option int (numeral_in 10 u)
                 else map_option int (numeral_in 10 t))
          else None)"

definition pow10 :: "int \<Rightarrow> real" where
  "pow10 e = (if 0 \<le> e then 10 ^ nat e else 1 / 10 ^ nat (- e))"

text \<open>
  \<^verbatim>\<open>StrUnsignedDecimalLiteral\<close> without \<^verbatim>\<open>Infinity\<close>: digits, an optional point with
  digits, an optional exponent; at least one digit before or after the point.
\<close>

definition unsigned_decimal :: "string \<Rightarrow> real option" where
  "unsigned_decimal s =
     (let ip = takeWhile is_digit s;
          r1 = dropWhile is_digit s;
          fp = (case r1 of c # t \<Rightarrow> if c = CHR ''.'' then takeWhile is_digit t else [] | [] \<Rightarrow> []);
          r2 = (case r1 of c # t \<Rightarrow> if c = CHR ''.'' then dropWhile is_digit t else r1 | [] \<Rightarrow> [])
      in if ip = [] \<and> fp = [] then None
         else case (digits_in 10 0 ip, digits_in 10 0 fp, exponent_part r2) of
                (Some i, Some f, Some e) \<Rightarrow>
                  Some ((real i + real f / 10 ^ length fp) * pow10 e)
              | _ \<Rightarrow> None)"

definition non_decimal :: "string \<Rightarrow> real option" where
  "non_decimal s =
     (case s of
        z # x # t \<Rightarrow>
          if z = CHR ''0'' \<and> (x = CHR ''x'' \<or> x = CHR ''X'') then map_option real (numeral_in 16 t)
          else if z = CHR ''0'' \<and> (x = CHR ''o'' \<or> x = CHR ''O'') then map_option real (numeral_in 8 t)
          else if z = CHR ''0'' \<and> (x = CHR ''b'' \<or> x = CHR ''B'') then map_option real (numeral_in 2 t)
          else None
      | _ \<Rightarrow> None)"

definition signed_decimal :: "string \<Rightarrow> real option" where
  "signed_decimal s =
     (case s of
        [] \<Rightarrow> None
      | c # t \<Rightarrow>
          if c = CHR ''-'' then map_option uminus (unsigned_decimal t)
          else if c = CHR ''+'' then unsigned_decimal t
          else unsigned_decimal s)"

definition string_to_number :: "string \<Rightarrow> jsnum" where
  "string_to_number s =
     (let t = trim s
      in if t = [] then Num 0
         else case non_decimal t of
                Some v \<Rightarrow> Num v
              | None \<Rightarrow> (case signed_decimal t of Some v \<Rightarrow> Num v | None \<Rightarrow> NaN))"

section \<open>Loading: \<^verbatim>\<open>data.forEach\<close> (main.js, lines 20 to 25)\<close>

text \<open>
  A row as \<^verbatim>\<open>d3.csv\<close> produces it: the four columns the script reads, each present and
  a string (a blank cell is the empty string). The column \<^verbatim>\<open>gross\<close> is overwritten with its
  number, the other three are read into the new properties \<^verbatim>\<open>score\<close>, \<^verbatim>\<open>year\<close> and
  \<^verbatim>\<open>director\<close>. Nothing in the loop can throw, and no row is dropped.
\<close>

record csv_row =
  gross_csv :: string
  imdb_score :: string
  title_year :: string
  director_name :: string

record movie =
  gross :: jsval
  score :: jsval
  year :: jsval
  director :: string

definition reformat :: "csv_row \<Rightarrow> movie" where
  "reformat d =
     \<lparr> gross = Number (string_to_number (gross_csv d)),
       score = Number (string_to_number (imdb_score d)),
       year = Number (string_to_number (title_year d)),
       director = director_name d \<rparr>"

definition load_data :: "csv_row list \<Rightarrow> movie list" where
  "load_data rows = map reformat rows"

section \<open>The parts of d3 and of the array library the script calls\<close>

text \<open>
  \<^verbatim>\<open>d3.rollup(values, reduce, key)\<close> groups into an \<^verbatim>\<open>InternMap\<close>, which iterates in the
  order in which its keys were first inserted, and then replaces every group by its
  reduction:
  \<^verbatim>\<open>for (const value of values) {
    const key = keyof(value, ++index, values);
    const group = groups.get(key);
    if (group) group.push(value); else groups.set(key, [value]);
  }
  for (const [key, values] of groups) groups.set(key, regroup(values, i));\<close>
  The map is an association list in insertion order. Keys are compared as the map does
  (\<^verbatim>\<open>SameValueZero\<close>: \<^verbatim>\<open>NaN\<close> is equal to itself), which is equality of the model's values.
\<close>

fun group_push :: "'k \<Rightarrow> 'a \<Rightarrow> ('k \<times> 'a list) list \<Rightarrow> ('k \<times> 'a list) list" where
  "group_push k v [] = [(k, [v])]"
| "group_push k v ((k', vs) # gs) =
     (if k' = k then (k', vs @ [v]) # gs else (k', vs) # group_push k v gs)"

definition d3_groups :: "('a \<Rightarrow> 'k) \<Rightarrow> 'a list \<Rightarrow> ('k \<times> 'a list) list" where
  "d3_groups keyof values = foldl (\<lambda>groups v. group_push (keyof v) v groups) [] values"

definition d3_rollup :: "'a list \<Rightarrow> ('a list \<Rightarrow> 'r) \<Rightarrow> ('a \<Rightarrow> 'k) \<Rightarrow> ('k \<times> 'r) list" where
  "d3_rollup values reduce keyof = map (\<lambda>(k, vs). (k, reduce vs)) (d3_groups keyof values)"

text \<open>
  \<^verbatim>\<open>d3.sum(values, valueof)\<close>:
  \<^verbatim>\<open>let sum = 0;
  for (let value of values) if (value = +valueof(value, ++index, values)) sum += value;
  return sum;\<close>
  A value whose number is \<^verbatim>\<open>NaN\<close> or \<^verbatim>\<open>0\<close> is skipped.
\<close>

definition d3_sum :: "('a \<Rightarrow> jsval) \<Rightarrow> 'a list \<Rightarrow> jsnum" where
  "d3_sum valueof values =
     foldl (\<lambda>sum x. let value = ToNumber (valueof x)
                     in if truthy value then js_add sum value else sum)
           (Num 0) values"

text \<open>
  \<^verbatim>\<open>d3.mean(values, valueof)\<close>:
  \<^verbatim>\<open>let count = 0; let sum = 0;
  for (let value of values)
    if ((value = valueof(value, ++index, values)) != null && (value = +value) >= value)
      ++count, sum += value;
  if (count) return sum / count;\<close>
  The result is \<^verbatim>\<open>undefined\<close> when no value counted.
\<close>

definition mean_step :: "('a \<Rightarrow> jsval) \<Rightarrow> nat \<times> jsnum \<Rightarrow> 'a \<Rightarrow> nat \<times> jsnum" where
  "mean_step valueof acc x =
     (let value = valueof x
      in if neq_null value \<and> num_ge (ToNumber value) (ToNumber value)
         then (fst acc + 1, js_add (snd acc) (ToNumber value))
         else acc)"

definition d3_mean :: "('a \<Rightarrow> jsval) \<Rightarrow> 'a list \<Rightarrow> jsval" where
  "d3_mean valueof values =
     (let acc = foldl (mean_step valueof) (0, Num 0) values
      in if fst acc \<noteq> 0 then Number (js_div (snd acc) (Num (real (fst acc)))) else Undefined)"

text \<open>
  \<^verbatim>\<open>d3.max(values, valueof)\<close>:
  \<^verbatim>\<open>let max;
  for (let value of values)
    if ((value = valueof(value, ++index, values)) != null
        && (max < value || (max === undefined && value >= value))) max = value;
  return max;\<close>
\<close>

definition max_step :: "('a \<Rightarrow> jsval) \<Rightarrow> jsval \<Rightarrow> 'a \<Rightarrow> jsval" where
  "max_step valueof mx x =
     (let value = valueof x
      in if neq_null value \<and> (js_lt mx value \<or> (mx = Undefined \<and> js_ge value value))
         then value else mx)"

definition d3_max :: "('a \<Rightarrow> jsval) \<Rightarrow> 'a list \<Rightarrow> jsval" where
  "d3_max valueof values = foldl (max_step valueof) Undefined values"

text \<open>
  \<^verbatim>\<open>Array.prototype.sort(comparefn)\<close>. ECMAScript reads a comparison result of \<^verbatim>\<open>NaN\<close> as
  \<^verbatim>\<open>+0\<close>, and the sort is stable. For a consistent comparator the result is the one
  stable ordering, which \<^verbatim>\<open>js_sort\<close> computes by insertion. For a comparator that is not
  consistent the order is left to the engine, and engines differ (V8 sorts short arrays
  by binary insertion after taking an initial run): there \<^verbatim>\<open>js_sort\<close> gives the elements
  and one of the possible orders. \<^verbatim>\<open>sort_gt\<close> says that the comparator puts its first
  argument strictly after its second.
\<close>

definition sort_gt :: "('a \<Rightarrow> 'a \<Rightarrow> jsnum) \<Rightarrow> 'a \<Rightarrow> 'a \<Rightarrow> bool" where
  "sort_gt comparefn x y = (case comparefn x y of NaN \<Rightarrow> False | Num v \<Rightarrow> 0 < v)"

fun sort_insert :: "('a \<Rightarrow> 'a \<Rightarrow> jsnum) \<Rightarrow> 'a \<Rightarrow> 'a list \<Rightarrow> 'a list" where
  "sort_insert comparefn x [] = [x]"
| "sort_insert comparefn x (y # ys) =
     (if sort_gt comparefn x y then y # sort_insert comparefn x ys else x # y # ys)"

definition js_sort :: "('a \<Rightarrow> 'a \<Rightarrow> jsnum) \<Rightarrow> 'a list \<Rightarrow> 'a list" where
  "js_sort comparefn xs = foldr (sort_insert comparefn) xs []"

section \<open>The line chart's data (main.js, lines 34 to 49)\<close>

definition lineCleanData :: "movie list \<Rightarrow> movie list" where
  "lineCleanData data =
     filter (\<lambda>d. neq_null (gross d) \<and> neq_null (year d) \<and> js_ge (year d) (Number (Num 2010)))
            data"

definition sumGrossByYear :: "movie list \<Rightarrow> (jsval \<times> jsnum) list" where
  "sumGrossByYear data = d3_rollup (lineCleanData data) (\<lambda>v. d3_sum gross v) year"

text \<open>An element of \<^verbatim>\<open>lineData\<close>: the object \<^verbatim>\<open>{ year, gross }\<close>.\<close>

record year_total =
  l_year :: jsval
  l_gross :: jsnum

definition by_year :: "year_total \<Rightarrow> year_total \<Rightarrow> jsnum" where
  "by_year a b = js_sub (ToNumber (l_year a)) (ToNumber (l_year b))"

definition lineData :: "movie list \<Rightarrow> year_total list" where
  "lineData data =
     js_sort by_year
       (map (\<lambda>(y, g). \<lparr> l_year = y, l_gross = g \<rparr>) (sumGrossByYear data))"

section \<open>The bar chart's data (main.js, lines 169 to 196)\<close>

definition barCleanData :: "movie list \<Rightarrow> movie list" where
  "barCleanData data = filter (\<lambda>d. director d \<noteq> '''' \<and> neq_null (score d)) data"

definition barMap :: "movie list \<Rightarrow> (string \<times> jsval) list" where
  "barMap data = d3_rollup (barCleanData data) (\<lambda>v. d3_mean score v) director"

text \<open>An element of \<^verbatim>\<open>barFinalArr\<close>: the object \<^verbatim>\<open>{ director, score }\<close>.\<close>

record director_score =
  b_director :: string
  b_score :: jsval

definition by_score_desc :: "director_score \<Rightarrow> director_score \<Rightarrow> jsnum" where
  "by_score_desc a b = js_sub (ToNumber (b_score b)) (ToNumber (b_score a))"

definition barArr :: "movie list \<Rightarrow> director_score list" where
  "barArr data = map (\<lambda>(d, s). \<lparr> b_director = d, b_score = s \<rparr>) (barMap data)"

definition barFinalArr :: "movie list \<Rightarrow> director_score list" where
  "barFinalArr data = take 6 (js_sort by_score_desc (barArr data))"

section \<open>Scales (main.js, lines 2 to 4, 59 to 67 and 204 to 211)\<close>

definition margin_top :: real where "margin_top = 50"
definition margin_right :: real where "margin_right = 30"
definition margin_bottom :: real where "margin_bottom = 60"
definition margin_left :: real where "margin_left = 70"

definition width :: real where
  "width = 800 - margin_left - margin_right"

definition height :: real where
  "height = 400 - margin_top - margin_bottom"

text \<open>
  \<^verbatim>\<open>d3.scaleLinear().domain([d0, d1]).range([r0, r1])\<close>. In d3-scale's \<^verbatim>\<open>continuous.js\<close>:
  \<^verbatim>\<open>function normalize(a, b) {
    return (b -= (a = +a))
        ? function(x) { return (x - a) / b; }
        : constant(isNaN(b) ? NaN : 0.5);
  }
  function bimap(domain, range, interpolate) {
    var d0 = domain[0], d1 = domain[1], r0 = range[0], r1 = range[1];
    if (d1 < d0) d0 = normalize(d1, d0), r0 = interpolate(r1, r0);
    else d0 = normalize(d0, d1), r0 = interpolate(r0, r1);
    return function(x) { return r0(d0(x)); };
  }
  function scale(x) {
    return x == null || isNaN(x = +x) ? unknown : output(transform(clamp(x)));
  }\<close>
  The domain setter coerces its entries with unary plus; for a linear scale
  \<^verbatim>\<open>transform\<close> and \<^verbatim>\<open>clamp\<close> are the identity, \<^verbatim>\<open>unknown\<close> is \<^verbatim>\<open>undefined\<close>, and the
  interpolator of two numbers is \<^verbatim>\<open>interpolateNumber\<close>:
  \<^verbatim>\<open>function(t) { return a * (1 - t) + b * t; }\<close>
\<close>

definition normalize :: "jsnum \<Rightarrow> jsnum \<Rightarrow> jsnum \<Rightarrow> jsnum" where
  "normalize a b x =
     (let b' = js_sub b a
      in if truthy b' then js_div (js_sub x a) b'
         else if is_NaN b' then NaN else Num (1 / 2))"

definition interpolateNumber :: "jsnum \<Rightarrow> jsnum \<Rightarrow> jsnum \<Rightarrow> jsnum" where
  "interpolateNumber a b t = js_add (js_mul a (js_sub (Num 1) t)) (js_mul b t)"

definition bimap :: "jsnum \<times> jsnum \<Rightarrow> jsnum \<times> jsnum \<Rightarrow> jsnum \<Rightarrow> jsnum" where
  "bimap dmn rng x =
     (let d0 = fst dmn; d1 = snd dmn; r0 = fst rng; r1 = snd rng
      in if num_lt d1 d0 then interpolateNumber r1 r0 (normalize d1 d0 x)
         else interpolateNumber r0 r1 (normalize d0 d1 x))"

definition scaleLinear :: "jsval \<times> jsval \<Rightarrow> jsnum \<times> jsnum \<Rightarrow> jsval \<Rightarrow> jsval" where
  "scaleLinear dmn rng x =
     (if \<not> neq_null x \<or> is_NaN (ToNumber x) then Undefined
      else Number (bimap (ToNumber (fst dmn), ToNumber (snd dmn)) rng (ToNumber x)))"

definition xYear :: "year_total list \<Rightarrow> jsval \<Rightarrow> jsval" where
  "xYear ld = scaleLinear (Number (Num 2010), d3_max l_year ld) (Num 0, Num width)"

definition yGross :: "year_total list \<Rightarrow> jsval \<Rightarrow> jsval" where
  "yGross ld = scaleLinear (Number (Num 0), d3_max (\<lambda>d. Number (l_gross d)) ld) (Num height, Num 0)"

definition barYScale :: "director_score list \<Rightarrow> jsval \<Rightarrow> jsval" where
  "barYScale arr = scaleLinear (Number (Num 0), d3_max b_score arr) (Num height, Num 0)"

text \<open>
  \<^verbatim>\<open>d3.scaleBand().domain(names).range([r0, r1]).padding(p)\<close>. The domain setter of the
  underlying ordinal scale keeps the first occurrence of every name; \<^verbatim>\<open>padding\<close> sets
  \<^verbatim>\<open>paddingInner = Math.min(1, paddingOuter = p)\<close>; \<^verbatim>\<open>align\<close> is \<^verbatim>\<open>0.5\<close> and \<^verbatim>\<open>round\<close> is off:
  \<^verbatim>\<open>function rescale() {
    var n = domain().length, reverse = r1 < r0,
        start = reverse ? r1 : r0, stop = reverse ? r0 : r1;
    step = (stop - start) / Math.max(1, n - paddingInner + paddingOuter * 2);
    start += (stop - start - step * (n - paddingInner)) * align;
    bandwidth = step * (1 - paddingInner);
    var values = sequence(n).map(function(i) { return start + step * i; });
    return ordinalRange(reverse ? values.reverse() : values);
  }\<close>
  A name outside the domain is mapped to \<^verbatim>\<open>undefined\<close>, the others to
  \<^verbatim>\<open>range[i % range.length]\<close>.
\<close>

fun ordinal_domain :: "'a list \<Rightarrow> 'a list \<Rightarrow> 'a list" where
  "ordinal_domain acc [] = acc"
| "ordinal_domain acc (v # vs) =
     (if v \<in> set acc then ordinal_domain acc vs else ordinal_domain (acc @ [v]) vs)"

fun index_of :: "'a \<Rightarrow> 'a list \<Rightarrow> nat option" where
  "index_of d [] = None"
| "index_of d (v # vs) = (if v = d then Some 0 else map_option Suc (index_of d vs))"

record band =
  band_domain :: "string list"
  band_range :: "real list"
  band_step :: real
  band_width :: real

definition scaleBand :: "string list \<Rightarrow> real \<times> real \<Rightarrow> real \<Rightarrow> band" where
  "scaleBand names rng p =
     (let names' = ordinal_domain [] names;
          r0 = fst rng; r1 = snd rng;
          paddingOuter = p; paddingInner = min 1 p;
          n = real (length names');
          reverse = (r1 < r0);
          start = (if reverse then r1 else r0);
          stop = (if reverse then r0 else r1);
          step = (stop - start) / max 1 (n - paddingInner + paddingOuter * 2);
          start' = start + (stop - start - step * (n - paddingInner)) * (1 / 2);
          values = map (\<lambda>i. start' + step * real i) [0 ..< length names']
      in \<lparr> band_domain = names',
           band_range = (if reverse then rev values else values),
           band_step = step,
           band_width = step * (1 - paddingInner) \<rparr>)"

definition band_apply :: "band \<Rightarrow> string \<Rightarrow> jsval" where
  "band_apply sc d =
     (case index_of d (band_domain sc) of
        None \<Rightarrow> Undefined
      | Some i \<Rightarrow> Number (Num (band_range sc ! (i mod length (band_range sc)))))"

definition barXScale :: "director_score list \<Rightarrow> band" where
  "barXScale arr = scaleBand (map b_director arr) (0, width) (1 / 10)"

section \<open>The sums as the script computes them: binary64 addition\<close>









section \<open>Notions used to state the properties\<close>

text \<open>The elements of a list in the order of their first occurrence.\<close>

abbreviation first_seen :: "'a list \<Rightarrow> 'a list" where
  "first_seen xs \<equiv> rev (remdups (rev xs))"

text \<open>What a value adds to a \<^verbatim>\<open>d3.sum\<close>: its number, and nothing when that is \<^verbatim>\<open>NaN\<close>.\<close>

abbreviation amount :: "jsval \<Rightarrow> real" where
  "amount v \<equiv> (case ToNumber v of NaN \<Rightarrow> 0 | Num r \<Rightarrow> r)"

text \<open>The scores that are numbers other than \<^verbatim>\<open>NaN\<close>, in the order of the records.\<close>

definition numeric_scores :: "movie list \<Rightarrow> real list" where
  "numeric_scores ds = concat (map (\<lambda>d. case score d of Number (Num r) \<Rightarrow> [r] | _ \<Rightarrow> []) ds)"

text \<open>A list of bars in non-increasing order of score, as \<^verbatim>\<open>>=\<close> compares scores.\<close>

abbreviation non_increasing :: "director_score list \<Rightarrow> bool" where
  "non_increasing arr \<equiv> sorted_wrt (\<lambda>a b. js_ge (b_score a) (b_score b)) arr"


section \<open>Example datasets\<close>

text \<open>
  Three records given directly, the last with a \<^verbatim>\<open>null\<close> gross:
  \<^verbatim>\<open>[{year:2010,gross:100},{year:2010,gross:50},{year:2011,gross:null}]\<close>.
\<close>

definition three_records :: "movie list" where
  "three_records =
     [\<lparr> gross = Number (Num 100), score = Null, year = Number (Num 2010), director = '''' \<rparr>,
      \<lparr> gross = Number (Num 50), score = Null, year = Number (Num 2010), director = '''' \<rparr>,
      \<lparr> gross = Null, score = Null, year = Number (Num 2011), director = '''' \<rparr>]"

text \<open>Rows of a CSV file, years out of order, one before 2010, cells left blank.\<close>

definition sample_rows :: "csv_row list" where
  "sample_rows =
     [\<lparr> gross_csv = ''30'', imdb_score = ''8'', title_year = ''2012'', director_name = ''A'' \<rparr>,
      \<lparr> gross_csv = ''100'', imdb_score = ''6'', title_year = ''2010'', director_name = ''A'' \<rparr>,
      \<lparr> gross_csv = ''n/a'', imdb_score = ''9'', title_year = ''2012'', director_name = ''B'' \<rparr>,
      \<lparr> gross_csv = ''7'', imdb_score = ''7'', title_year = ''2011'', director_name = '''' \<rparr>,
      \<lparr> gross_csv = ''5'', imdb_score = ''9'', title_year = ''2009'', director_name = ''C'' \<rparr>,
      \<lparr> gross_csv = ''50'', imdb_score = ''5'', title_year = '''', director_name = ''B'' \<rparr>]"

text \<open>Two rows of a CSV file, the first with a score that is not a number.\<close>

definition nan_rows :: "csv_row list" where
  "nan_rows =
     [\<lparr> gross_csv = ''10'', imdb_score = ''n/a'', title_year = ''2010'', director_name = ''A'' \<rparr>,
      \<lparr> gross_csv = ''20'', imdb_score = ''9'', title_year = ''2011'', director_name = ''B'' \<rparr>]"

text \<open>Two rows of one director, the first with blank gross and score cells.\<close>

definition blank_rows :: "csv_row list" where
  "blank_rows =
     [\<lparr> gross_csv = '''', imdb_score = '''', title_year = ''2011'', director_name = ''A'' \<rparr>,
      \<lparr> gross_csv = ''100'', imdb_score = ''8'', title_year = ''2010'', director_name = ''A'' \<rparr>]"

text \<open>
  Three scored records of two directors:
  \<^verbatim>\<open>[{director:"A",score:8},{director:"A",score:6},{director:"B",score:9}]\<close>.
\<close>

definition two_directors :: "movie list" where
  "two_directors =
     [\<lparr> gross = Null, score = Number (Num 8), year = Null, director = ''A'' \<rparr>,
      \<lparr> gross = Null, score = Number (Num 6), year = Null, director = ''A'' \<rparr>,
      \<lparr> gross = Null, score = Number (Num 9), year = Null, director = ''B'' \<rparr>]"

text \<open>Eight directors with one record each, scores 1 to 8 in the order of the records.\<close>

definition eight_directors :: "movie list" where
  "eight_directors =
     map (\<lambda>(n, s). \<lparr> gross = Null, score = Number (Num s), year = Null, director = n \<rparr>)
       [(''D1'', 1), (''D2'', 2), (''D3'', 3), (''D4'', 4),
        (''D5'', 5), (''D6'', 6), (''D7'', 7), (''D8'', 8)]"


text \<open>
  Seven rows of seven directors; the scores of A, B and D are not numbers, and E and G
  have the same score.
\<close>

definition tie_rows :: "csv_row list" where
  "tie_rows =
     map (\<lambda>(n, s). \<lparr> gross_csv = ''1'', imdb_score = s, title_year = ''2010'', director_name = n \<rparr>)
       [(''A'', ''n/a''), (''B'', ''n/a''), (''C'', ''1''), (''D'', ''n/a''),
        (''E'', ''2''), (''F'', ''3''), (''G'', ''2'')]"

section \<open>Evaluating the script on a dataset\<close>

lemmas parse_defs = string_to_number_def trim_def is_space_def non_decimal_def signed_decimal_def
  unsigned_decimal_def is_digit_def digit_in_def exponent_part_def pow10_def numeral_in_def Let_def

lemmas run_defs = load_data_def reformat_def lineData_def sumGrossByYear_def lineCleanData_def
  barFinalArr_def barArr_def barMap_def barCleanData_def d3_rollup_def d3_groups_def d3_sum_def
  d3_mean_def mean_step_def js_sort_def sort_gt_def by_year_def by_score_desc_def js_ge_def js_lt_def

lemma load_sample_rows:
  "load_data sample_rows =
     [\<lparr> gross = Number (Num 30), score = Number (Num 8), year = Number (Num 2012), director = ''A'' \<rparr>,
      \<lparr> gross = Number (Num 100), score = Number (Num 6), year = Number (Num 2010), director = ''A'' \<rparr>,
      \<lparr> gross = Number NaN, score = Number (Num 9), year = Number (Num 2012), director = ''B'' \<rparr>,
      \<lparr> gross = Number (Num 7), score = Number (Num 7), year = Number (Num 2011), director = [] \<rparr>,
      \<lparr> gross = Number (Num 5), score = Number (Num 9), year = Number (Num 2009), director = ''C'' \<rparr>,
      \<lparr> gross = Number (Num 50), score = Number (Num 5), year = Number (Num 0), director = ''B'' \<rparr>]"
  by (simp add: sample_rows_def load_data_def reformat_def parse_defs)

lemma lineData_sample_rows:
  "lineData (load_data sample_rows) =
     [\<lparr> l_year = Number (Num 2010), l_gross = Num 100 \<rparr>,
      \<lparr> l_year = Number (Num 2011), l_gross = Num 7 \<rparr>,
      \<lparr> l_year = Number (Num 2012), l_gross = Num 30 \<rparr>]"
  unfolding load_sample_rows by (simp add: run_defs)

lemma barFinalArr_sample_rows:
  "barFinalArr (load_data sample_rows) =
     [\<lparr> b_director = ''C'', b_score = Number (Num 9) \<rparr>,
      \<lparr> b_director = ''A'', b_score = Number (Num 7) \<rparr>,
      \<lparr> b_director = ''B'', b_score = Number (Num 7) \<rparr>]"
  unfolding load_sample_rows by (simp add: run_defs)

lemma lineData_three_records:
  "lineData three_records = [\<lparr> l_year = Number (Num 2010), l_gross = Num 150 \<rparr>]"
  by (simp add: three_records_def run_defs)

lemma barFinalArr_two_directors:
  "barFinalArr two_directors =
     [\<lparr> b_director = ''B'', b_score = Number (Num 9) \<rparr>,
      \<lparr> b_director = ''A'', b_score = Number (Num 7) \<rparr>]"
  by (simp add: two_directors_def run_defs)

lemma barFinalArr_eight_directors:
  "barFinalArr eight_directors =
     [\<lparr> b_director = ''D8'', b_score = Number (Num 8) \<rparr>,
      \<lparr> b_director = ''D7'', b_score = Number (Num 7) \<rparr>,
      \<lparr> b_director = ''D6'', b_score = Number (Num 6) \<rparr>,
      \<lparr> b_director = ''D5'', b_score = Number (Num 5) \<rparr>,
      \<lparr> b_director = ''D4'', b_score = Number (Num 4) \<rparr>,
      \<lparr> b_director = ''D3'', b_score = Number (Num 3) \<rparr>]"
  by (simp add: eight_directors_def run_defs)

section \<open>Grouping, summing and sorting\<close>


lemma group_push_map:
  "distinct ks \<Longrightarrow>
   group_push k v (map (\<lambda>k'. (k', h k')) ks) =
     (if k \<in> set ks then map (\<lambda>k'. (k', if k' = k then h k' @ [v] else h k')) ks
      else map (\<lambda>k'. (k', h k')) ks @ [(k, [v])])"
  by (induction ks) auto

lemma d3_groups_snoc:
  "d3_groups keyof (xs @ [x]) = group_push (keyof x) x (d3_groups keyof xs)"
  by (simp add: d3_groups_def)

lemma d3_groups_eq:
  "d3_groups keyof xs =
     map (\<lambda>k. (k, filter (\<lambda>x. keyof x = k) xs)) (first_seen (map keyof xs))"
proof (induction xs rule: rev_induct)
  case Nil
  show ?case by (simp add: d3_groups_def)
next
  case (snoc x xs)
  let ?ks = "first_seen (map keyof xs)"
  have d: "distinct ?ks" by simp
  have s: "set ?ks = keyof ` set xs" by simp
  show ?case
  proof (cases "keyof x \<in> keyof ` set xs")
    case True
    then show ?thesis
      unfolding d3_groups_snoc snoc.IH group_push_map [OF d] s
      by (auto simp: image_iff)
  next
    case False
    then have "\<forall>y\<in>set xs. keyof y \<noteq> keyof x"
      by (metis imageI)
    then have e: "filter (\<lambda>y. keyof y = keyof x) xs = []"
      by (simp add: filter_empty_conv)
    from False show ?thesis
      unfolding d3_groups_snoc snoc.IH group_push_map [OF d] s
      by (auto simp: e image_iff)
  qed
qed

lemma d3_rollup_eq:
  "d3_rollup xs reduce keyof =
     map (\<lambda>k. (k, reduce (filter (\<lambda>x. keyof x = k) xs))) (first_seen (map keyof xs))"
  by (simp add: d3_rollup_def d3_groups_eq comp_def)






lemma mset_sort_insert: "mset (sort_insert cmp x ys) = add_mset x (mset ys)"
  by (induction ys) auto

lemma mset_js_sort: "mset (js_sort cmp xs) = mset xs"
  by (induction xs) (auto simp: js_sort_def mset_sort_insert)

lemma mset_map_js_sort: "mset (map f (js_sort cmp xs)) = mset (map f xs)"
  by (metis mset_js_sort mset_map)

lemma set_js_sort: "set (js_sort cmp xs) = set xs"
  by (metis mset_js_sort set_mset_mset)

lemma length_js_sort: "length (js_sort cmp xs) = length xs"
  by (metis mset_js_sort size_mset)


lemma sorted_sort_insert:
  "sorted (map kf ys) \<Longrightarrow> \<forall>y\<in>set ys. sort_gt cmp x y = (kf y < kf x) \<Longrightarrow>
   sorted (map (kf :: 'a \<Rightarrow> real) (sort_insert cmp x ys))"
  by (induction ys) (auto simp: set_mset_mset [symmetric] mset_sort_insert simp del: set_mset_mset)

lemma sorted_js_sort:
  "\<forall>x\<in>set xs. \<forall>y\<in>set xs. sort_gt cmp x y = (kf y < kf x) \<Longrightarrow>
   sorted (map (kf :: 'a \<Rightarrow> real) (js_sort cmp xs))"
proof (induction xs)
  case Nil
  show ?case by (simp add: js_sort_def)
next
  case (Cons x xs)
  have "sorted (map kf (js_sort cmp xs))" using Cons by simp
  moreover have "\<forall>y\<in>set (js_sort cmp xs). sort_gt cmp x y = (kf y < kf x)"
    using Cons.prems by (simp add: set_js_sort)
  ultimately have "sorted (map kf (sort_insert cmp x (js_sort cmp xs)))"
    by (rule sorted_sort_insert)
  then show ?case by (simp add: js_sort_def)
qed



section \<open>Properties of the yearly totals\<close>

lemma lineData_eq:
  "lineData ds =
     js_sort by_year
       (map (\<lambda>k. \<lparr> l_year = k, l_gross = d3_sum gross (filter (\<lambda>d. year d = k) (lineCleanData ds)) \<rparr>)
            (first_seen (map year (lineCleanData ds))))"
  by (simp add: lineData_def sumGrossByYear_def d3_rollup_eq comp_def)

lemma clean_year_numeric:
  "d \<in> set (lineCleanData ds) \<Longrightarrow> \<exists>r. year d = Number (Num r) \<and> 2010 \<le> r"
proof -
  assume "d \<in> set (lineCleanData ds)"
  then have g: "js_ge (year d) (Number (Num 2010))" and n: "neq_null (year d)"
    by (simp_all add: lineCleanData_def)
  from n obtain v where v: "year d = Number v" by (cases "year d") simp_all
  with g show ?thesis by (cases v) (simp_all add: js_ge_def)
qed


lemma sort_gt_by_year:
  "l_year a = Number (Num r) \<Longrightarrow> l_year b = Number (Num s) \<Longrightarrow>
   sort_gt by_year a b = (amount (l_year b) < amount (l_year a))"
  by (simp add: sort_gt_def by_year_def)

lemma strictly_increasing_years:
  "sorted (map (\<lambda>e. amount (l_year e)) xs) \<Longrightarrow> distinct (map l_year xs) \<Longrightarrow>
   \<forall>e\<in>set xs. \<exists>r. l_year e = Number (Num r) \<Longrightarrow>
   sorted_wrt (\<lambda>a b. js_lt (l_year a) (l_year b)) xs"
proof (induction xs)
  case Nil
  show ?case by simp
next
  case (Cons x xs)
  have "js_lt (l_year x) (l_year y)" if y: "y \<in> set xs" for y
  proof -
    obtain r s where r: "l_year x = Number (Num r)" and s: "l_year y = Number (Num s)"
      using Cons.prems(3) y by auto
    have "r \<le> s" using Cons.prems(1) y r s by auto
    moreover have "r \<noteq> s" using Cons.prems(2) y r s by (auto simp: image_iff)
    ultimately show ?thesis by (simp add: js_lt_def r s)
  qed
  moreover have "sorted_wrt (\<lambda>a b. js_lt (l_year a) (l_year b)) xs"
    using Cons by simp
  ultimately show ?case by simp
qed

text \<open>
  Claim C4. The years of the yearly totals are strictly increasing, as \<^verbatim>\<open><\<close> compares
  them; no year occurs twice, and the years are exactly the years of the records that pass
  the filter.
\<close>

theorem yearly_totals_strictly_increasing:
  "sorted_wrt (\<lambda>a b. js_lt (l_year a) (l_year b)) (lineData ds) \<and>
   distinct (map l_year (lineData ds)) \<and>
   set (map l_year (lineData ds)) = year ` set (lineCleanData ds)"
proof -
  let ?C = "lineCleanData ds"
  let ?ks = "first_seen (map year ?C)"
  let ?U = "map (\<lambda>k. \<lparr> l_year = k, l_gross = d3_sum gross (filter (\<lambda>d. year d = k) ?C) \<rparr>) ?ks"
  have L: "lineData ds = js_sort by_year ?U" by (rule lineData_eq)
  have yU: "map l_year ?U = ?ks" by (simp add: comp_def)
  have m: "mset (map l_year (lineData ds)) = mset ?ks"
    unfolding L by (simp only: mset_map_js_sort yU)
  have d: "distinct (map l_year (lineData ds))"
    using mset_eq_imp_distinct_iff [OF m] by simp
  have s: "set (map l_year (lineData ds)) = year ` set ?C"
    using mset_eq_setD [OF m] by simp
  have num: "\<exists>r. l_year e = Number (Num r)" if "e \<in> set ?U" for e
    using that clean_year_numeric [of _ ds] by fastforce
  have "\<forall>a\<in>set ?U. \<forall>b\<in>set ?U. sort_gt by_year a b = (amount (l_year b) < amount (l_year a))"
    using num sort_gt_by_year by blast
  then have "sorted (map (\<lambda>e. amount (l_year e)) (lineData ds))"
    unfolding L by (rule sorted_js_sort)
  moreover have "\<forall>e\<in>set (lineData ds). \<exists>r. l_year e = Number (Num r)"
    unfolding L set_js_sort using num by blast
  ultimately have "sorted_wrt (\<lambda>a b. js_lt (l_year a) (l_year b)) (lineData ds)"
    using d by (intro strictly_increasing_years)
  with d s show ?thesis by simp
qed

theorem yearly_totals_strictly_increasing_witness:
  "map l_year (lineData (load_data sample_rows)) =
     [Number (Num 2010), Number (Num 2011), Number (Num 2012)] \<and>
   sorted_wrt (\<lambda>a b. js_lt (l_year a) (l_year b)) (lineData (load_data sample_rows)) \<and>
   distinct (map l_year (lineData (load_data sample_rows))) \<and>
   set (map l_year (lineData (load_data sample_rows))) =
     year ` set (lineCleanData (load_data sample_rows))"
  using yearly_totals_strictly_increasing [of "load_data sample_rows"]
  by (simp add: lineData_sample_rows)

section \<open>The yearly totals with rounded sums\<close>





























section \<open>Properties of the loader\<close>

lemma load_nan_rows:
  "load_data nan_rows =
     [\<lparr> gross = Number (Num 10), score = Number NaN, year = Number (Num 2010), director = ''A'' \<rparr>,
      \<lparr> gross = Number (Num 20), score = Number (Num 9), year = Number (Num 2011), director = ''B'' \<rparr>]"
  by (simp add: nan_rows_def load_data_def reformat_def parse_defs)

lemma barFinalArr_nan_rows:
  "barFinalArr (load_data nan_rows) =
     [\<lparr> b_director = ''A'', b_score = Undefined \<rparr>,
      \<lparr> b_director = ''B'', b_score = Number (Num 9) \<rparr>]"
  unfolding load_nan_rows by (simp add: run_defs)

lemma load_blank_rows:
  "load_data blank_rows =
     [\<lparr> gross = Number (Num 0), score = Number (Num 0), year = Number (Num 2011), director = ''A'' \<rparr>,
      \<lparr> gross = Number (Num 100), score = Number (Num 8), year = Number (Num 2010), director = ''A'' \<rparr>]"
  by (simp add: blank_rows_def load_data_def reformat_def parse_defs)

lemma load_data_number:
  "d \<in> set (load_data rows) \<Longrightarrow>
   (\<exists>n. gross d = Number n) \<and> (\<exists>n. score d = Number n) \<and> (\<exists>n. year d = Number n)"
  by (auto simp: load_data_def reformat_def)

text \<open>
  Claim C9. After loading, the gross of every record is a number, never \<^verbatim>\<open>null\<close> or
  \<^verbatim>\<open>undefined\<close>, so the test \<^verbatim>\<open>d.gross != null\<close> removes nothing: the records kept for the line
  chart are those that pass the two tests on the year.
\<close>

theorem gross_test_excludes_nothing:
  "list_all (\<lambda>d. \<exists>n. gross d = Number n) (load_data rows) \<and>
   list_all (\<lambda>d. neq_null (gross d)) (load_data rows) \<and>
   lineCleanData (load_data rows) =
     filter (\<lambda>d. neq_null (year d) \<and> js_ge (year d) (Number (Num 2010))) (load_data rows)"
proof -
  have n: "\<exists>n. gross d = Number n" if "d \<in> set (load_data rows)" for d
    using load_data_number [OF that] by simp
  then have g: "neq_null (gross d)" if "d \<in> set (load_data rows)" for d
    using that by fastforce
  have "lineCleanData (load_data rows) =
     filter (\<lambda>d. neq_null (year d) \<and> js_ge (year d) (Number (Num 2010))) (load_data rows)"
    unfolding lineCleanData_def by (rule filter_cong) (simp_all add: g)
  with n g show ?thesis by (simp add: list_all_iff)
qed

theorem gross_test_excludes_nothing_witness:
  "list_all (\<lambda>d. neq_null (gross d)) (load_data sample_rows) \<and>
   map gross (load_data sample_rows) =
     [Number (Num 30), Number (Num 100), Number NaN, Number (Num 7), Number (Num 5), Number (Num 50)] \<and>
   lineCleanData (load_data sample_rows) =
     filter (\<lambda>d. neq_null (year d) \<and> js_ge (year d) (Number (Num 2010))) (load_data sample_rows)"
  using gross_test_excludes_nothing [of sample_rows] by (simp add: load_sample_rows)

section \<open>Properties of the director averages\<close>

lemma mean_step_score:
  "mean_step score (c, Num s) x =
     (case score x of Number (Num r) \<Rightarrow> (c + 1, Num (s + r)) | _ \<Rightarrow> (c, Num s))"
  by (simp add: mean_step_def split: jsval.splits jsnum.splits)

lemma mean_foldl:
  "foldl (mean_step score) (c, Num s) xs =
     (c + length (numeric_scores xs), Num (s + sum_list (numeric_scores xs)))"
proof (induction xs arbitrary: c s)
  case Nil
  show ?case by (simp add: numeric_scores_def)
next
  case (Cons x xs)
  have t: "numeric_scores (x # xs) =
      (case score x of Number (Num r) \<Rightarrow> [r] | _ \<Rightarrow> []) @ numeric_scores xs"
    by (simp add: numeric_scores_def)
  show ?case
    by (simp add: t mean_step_score Cons.IH add.assoc split: jsval.splits jsnum.splits)
qed

lemma d3_mean_score:
  "d3_mean score xs =
     (let vs = numeric_scores xs
      in if vs = [] then Undefined else Number (Num (sum_list vs / real (length vs))))"
  by (simp add: d3_mean_def mean_foldl Let_def)

lemma barArr_eq:
  "barArr ds =
     map (\<lambda>k. \<lparr> b_director = k,
               b_score = d3_mean score (filter (\<lambda>d. director d = k) (barCleanData ds)) \<rparr>)
         (first_seen (map director (barCleanData ds)))"
  by (simp add: barArr_def barMap_def d3_rollup_eq comp_def)

lemma barFinalArr_subset: "set (barFinalArr ds) \<subseteq> set (barArr ds)"
  unfolding barFinalArr_def using set_take_subset [of 6 "js_sort by_score_desc (barArr ds)"]
  by (simp add: set_js_sort)

text \<open>
  Claim C10. A record whose score is \<^verbatim>\<open>NaN\<close> passes the filter of the bar chart when its
  director is not empty; the score of every bar is the mean of the scores of its director's
  kept records that are numbers other than \<^verbatim>\<open>NaN\<close>, and \<^verbatim>\<open>undefined\<close> when there is none;
  such a bar does occur among the first six: the director of the first of the two rows
  \<^verbatim>\<open>nan_rows\<close> has one.
\<close>

theorem nan_score_is_skipped_by_the_mean:
  "(d \<in> set ds \<and> director d \<noteq> [] \<and> score d = Number NaN \<longrightarrow> d \<in> set (barCleanData ds)) \<and>
   (\<forall>e\<in>set (barFinalArr ds).
      b_score e =
        (let vs = numeric_scores (filter (\<lambda>d. director d = b_director e) (barCleanData ds))
         in if vs = [] then Undefined else Number (Num (sum_list vs / real (length vs))))) \<and>
   \<lparr> b_director = ''A'', b_score = Undefined \<rparr> \<in> set (barFinalArr (load_data nan_rows))"
proof -
  have a: "d \<in> set ds \<and> director d \<noteq> [] \<and> score d = Number NaN \<longrightarrow> d \<in> set (barCleanData ds)"
    by (simp add: barCleanData_def)
  have b: "b_score e =
        (let vs = numeric_scores (filter (\<lambda>d. director d = b_director e) (barCleanData ds))
         in if vs = [] then Undefined else Number (Num (sum_list vs / real (length vs))))"
    if "e \<in> set (barFinalArr ds)" for e
  proof -
    from that have "e \<in> set (barArr ds)" using barFinalArr_subset by blast
    then obtain k where "e = \<lparr> b_director = k,
        b_score = d3_mean score (filter (\<lambda>d. director d = k) (barCleanData ds)) \<rparr>"
      unfolding barArr_eq by auto
    then show ?thesis by (simp add: d3_mean_score)
  qed
  have c: "\<lparr> b_director = ''A'', b_score = Undefined \<rparr> \<in> set (barFinalArr (load_data nan_rows))"
    by (simp add: barFinalArr_nan_rows)
  from a b c show ?thesis by blast
qed

theorem nan_score_is_skipped_by_the_mean_witness:
  "score (load_data nan_rows ! 0) = Number NaN \<and>
   load_data nan_rows ! 0 \<in> set (barCleanData (load_data nan_rows)) \<and>
   numeric_scores (filter (\<lambda>d. director d = ''A'') (barCleanData (load_data nan_rows))) = [] \<and>
   \<lparr> b_director = ''A'', b_score = Undefined \<rparr> \<in> set (barFinalArr (load_data nan_rows))"
proof -
  note t = nan_score_is_skipped_by_the_mean [of "load_data nan_rows ! 0" "load_data nan_rows"]
  have s: "score (load_data nan_rows ! 0) = Number NaN"
    by (simp add: load_nan_rows)
  have "load_data nan_rows ! 0 \<in> set (load_data nan_rows) \<and> director (load_data nan_rows ! 0) \<noteq> []"
    by (simp add: load_nan_rows)
  with s t have m: "load_data nan_rows ! 0 \<in> set (barCleanData (load_data nan_rows))"
    by blast
  have n: "numeric_scores (filter (\<lambda>d. director d = ''A'') (barCleanData (load_data nan_rows))) = []"
    by (simp add: load_nan_rows barCleanData_def numeric_scores_def)
  from t have "\<lparr> b_director = ''A'', b_score = Undefined \<rparr> \<in> set (barFinalArr (load_data nan_rows))"
    by blast
  with s m n show ?thesis by blast
qed

lemma sort_gt_by_score_desc: "sort_gt by_score_desc x y \<Longrightarrow> b_score x \<noteq> b_score y"
  by (cases "ToNumber (b_score y)") (auto simp: sort_gt_def by_score_desc_def)

lemma filter_sort_insert:
  "filter (\<lambda>e. b_score e = s) (sort_insert by_score_desc x ys) =
     filter (\<lambda>e. b_score e = s) (x # ys)"
  by (induction ys) (auto dest: sort_gt_by_score_desc)

lemma filter_js_sort:
  "filter (\<lambda>e. b_score e = s) (js_sort by_score_desc xs) = filter (\<lambda>e. b_score e = s) xs"
proof (induction xs)
  case Nil
  show ?case by (simp add: js_sort_def)
next
  case (Cons x xs)
  have "js_sort by_score_desc (x # xs) = sort_insert by_score_desc x (js_sort by_score_desc xs)"
    by (simp add: js_sort_def)
  then show ?case using Cons by (simp add: filter_sort_insert)
qed

text \<open>
  When no mean is \<^verbatim>\<open>undefined\<close> the comparator is consistent, and directors with equal score
  keep the order of the rollup: the bars of any one score among the first six are an
  initial part of the bars of that score in the order of the map, which is the order in
  which the directors first occur in the kept records.
\<close>

lemma ties_keep_grouping_order_when_defined:
  "\<forall>e\<in>set (barArr ds). b_score e \<noteq> Undefined \<Longrightarrow>
   prefix (filter (\<lambda>e. b_score e = s) (barFinalArr ds)) (filter (\<lambda>e. b_score e = s) (barArr ds)) \<and>
   map b_director (barArr ds) = first_seen (map director (barCleanData ds))"
proof -
  let ?S = "js_sort by_score_desc (barArr ds)"
  have "filter (\<lambda>e. b_score e = s) ?S =
      filter (\<lambda>e. b_score e = s) (take 6 ?S) @ filter (\<lambda>e. b_score e = s) (drop 6 ?S)"
    by (metis append_take_drop_id filter_append)
  then have "prefix (filter (\<lambda>e. b_score e = s) (take 6 ?S)) (filter (\<lambda>e. b_score e = s) ?S)"
    by (metis prefixI)
  then have "prefix (filter (\<lambda>e. b_score e = s) (barFinalArr ds)) (filter (\<lambda>e. b_score e = s) (barArr ds))"
    by (simp add: barFinalArr_def filter_js_sort)
  moreover have "map b_director (barArr ds) = first_seen (map director (barCleanData ds))"
    by (simp add: barArr_eq comp_def)
  ultimately show ?thesis by simp
qed

lemma barArr_tie_rows:
  "barArr (load_data tie_rows) =
     [\<lparr> b_director = ''A'', b_score = Undefined \<rparr>,
      \<lparr> b_director = ''B'', b_score = Undefined \<rparr>,
      \<lparr> b_director = ''C'', b_score = Number (Num 1) \<rparr>,
      \<lparr> b_director = ''D'', b_score = Undefined \<rparr>,
      \<lparr> b_director = ''E'', b_score = Number (Num 2) \<rparr>,
      \<lparr> b_director = ''F'', b_score = Number (Num 3) \<rparr>,
      \<lparr> b_director = ''G'', b_score = Number (Num 2) \<rparr>]"
  by (simp add: tie_rows_def load_data_def reformat_def parse_defs barArr_def barMap_def
      barCleanData_def d3_rollup_def d3_groups_def d3_mean_def mean_step_def)

text \<open>
  Claim C8. Both aggregations read nothing but the record sequence, so a second run gives
  what the first gave; but the order of directors with equal score is not always the order
  of the rollup. In \<^verbatim>\<open>tie_rows\<close> the scores of A, B and D are not numbers, the records pass the
  filter and their means are \<^verbatim>\<open>undefined\<close>. The comparator then answers \<^verbatim>\<open>NaN\<close>, read as \<^verbatim>\<open>+0\<close>,
  for C against A and for A against E, and a positive number for C against E: it is not a
  consistent comparator, and ECMAScript leaves the order to the engine. The binary
  insertion of V8 takes A to E as a sorted run, puts F and then G in front of C, and
  returns A, B, F, G, C, D, E: of the two directors with the score \<^verbatim>\<open>2\<close> the first six hold
  G and not E, who comes first in the map.
\<close>

theorem undefined_scores_make_the_comparator_inconsistent:
  "barArr (load_data tie_rows) =
     [\<lparr> b_director = ''A'', b_score = Undefined \<rparr>,
      \<lparr> b_director = ''B'', b_score = Undefined \<rparr>,
      \<lparr> b_director = ''C'', b_score = Number (Num 1) \<rparr>,
      \<lparr> b_director = ''D'', b_score = Undefined \<rparr>,
      \<lparr> b_director = ''E'', b_score = Number (Num 2) \<rparr>,
      \<lparr> b_director = ''F'', b_score = Number (Num 3) \<rparr>,
      \<lparr> b_director = ''G'', b_score = Number (Num 2) \<rparr>] \<and>
   by_score_desc \<lparr> b_director = ''C'', b_score = Number (Num 1) \<rparr>
                 \<lparr> b_director = ''A'', b_score = Undefined \<rparr> = NaN \<and>
   by_score_desc \<lparr> b_director = ''A'', b_score = Undefined \<rparr>
                 \<lparr> b_director = ''E'', b_score = Number (Num 2) \<rparr> = NaN \<and>
   by_score_desc \<lparr> b_director = ''C'', b_score = Number (Num 1) \<rparr>
                 \<lparr> b_director = ''E'', b_score = Number (Num 2) \<rparr> = Num 1"
  by (simp add: barArr_tie_rows by_score_desc_def)

section \<open>Blank and non-numeric cells\<close>

text \<open>
  Loading cannot fail and keeps every row, in order, with the director's name as it is.
\<close>

lemma load_data_keeps_rows:
  "length (load_data rows) = length rows \<and> map director (load_data rows) = map director_name rows"
  by (simp add: load_data_def reformat_def comp_def)

lemma blank_cell_is_zero: "string_to_number [] = Num 0"
  by (simp add: parse_defs)

text \<open>
  Claim C2. Blank text does not load as a missing value: unary plus makes it the number
  \<^verbatim>\<open>0\<close>. In \<^verbatim>\<open>blank_rows\<close> the first row has blank gross and score cells; both load as \<^verbatim>\<open>0\<close>,
  the record passes both filters, the year 2011 gets the total \<^verbatim>\<open>0\<close>, and the blank score
  is averaged with the score \<^verbatim>\<open>8\<close> of the second row to \<^verbatim>\<open>4\<close>.
\<close>

theorem blank_cells_count_as_zero:
  "map gross (load_data blank_rows) = [Number (Num 0), Number (Num 100)] \<and>
   map score (load_data blank_rows) = [Number (Num 0), Number (Num 8)] \<and>
   lineCleanData (load_data blank_rows) = load_data blank_rows \<and>
   barCleanData (load_data blank_rows) = load_data blank_rows \<and>
   lineData (load_data blank_rows) =
     [\<lparr> l_year = Number (Num 2010), l_gross = Num 100 \<rparr>,
      \<lparr> l_year = Number (Num 2011), l_gross = Num 0 \<rparr>] \<and>
   barFinalArr (load_data blank_rows) = [\<lparr> b_director = ''A'', b_score = Number (Num 4) \<rparr>]"
  unfolding load_blank_rows by (simp add: run_defs)

text \<open>
  The part of claim C3 that holds whatever the records are: at most six bars, and all the
  directors of the kept records when they are at most six.
\<close>

lemma barFinalArr_length: "length (barFinalArr ds) \<le> 6"
  by (simp add: barFinalArr_def)

lemma barFinalArr_all_when_few:
  "length (first_seen (map director (barCleanData ds))) \<le> 6 \<Longrightarrow>
   mset (barFinalArr ds) = mset (barArr ds) \<and>
   mset (map b_director (barFinalArr ds)) = mset (first_seen (map director (barCleanData ds)))"
proof -
  assume "length (first_seen (map director (barCleanData ds))) \<le> 6"
  then have "length (js_sort by_score_desc (barArr ds)) \<le> 6"
    by (simp add: length_js_sort barArr_eq)
  then have e: "barFinalArr ds = js_sort by_score_desc (barArr ds)"
    by (simp add: barFinalArr_def)
  have "map b_director (barArr ds) = first_seen (map director (barCleanData ds))"
    by (simp add: barArr_eq comp_def)
  then show ?thesis
    unfolding e by (simp only: mset_js_sort mset_map_js_sort simp_thms)
qed

text \<open>
  The bars are in non-increasing order of score when no director's mean is \<^verbatim>\<open>undefined\<close>.
\<close>

lemma sort_gt_by_score_num:
  "b_score a = Number (Num r) \<Longrightarrow> b_score b = Number (Num s) \<Longrightarrow>
   sort_gt by_score_desc a b = (- amount (b_score b) < - amount (b_score a))"
  by (simp add: sort_gt_def by_score_desc_def)

lemma barArr_score_cases:
  "e \<in> set (barArr ds) \<Longrightarrow> b_score e = Undefined \<or> (\<exists>r. b_score e = Number (Num r))"
proof -
  assume "e \<in> set (barArr ds)"
  then obtain k where "e = \<lparr> b_director = k,
      b_score = d3_mean score (filter (\<lambda>d. director d = k) (barCleanData ds)) \<rparr>"
    unfolding barArr_eq by auto
  then show ?thesis
    by (cases "numeric_scores (filter (\<lambda>d. director d = k) (barCleanData ds)) = []")
       (simp_all add: d3_mean_score Let_def)
qed

lemma non_increasing_if_sorted:
  "sorted (map (\<lambda>e. - amount (b_score e)) xs) \<Longrightarrow>
   \<forall>e\<in>set xs. \<exists>r. b_score e = Number (Num r) \<Longrightarrow> non_increasing xs"
proof (induction xs)
  case Nil
  show ?case by simp
next
  case (Cons x xs)
  have "js_ge (b_score x) (b_score y)" if y: "y \<in> set xs" for y
  proof -
    obtain r s where r: "b_score x = Number (Num r)" and s: "b_score y = Number (Num s)"
      using Cons.prems(2) y by auto
    have "s \<le> r" using Cons.prems(1) y r s by auto
    then show ?thesis by (simp add: js_ge_def r s)
  qed
  moreover have "non_increasing xs" using Cons by simp
  ultimately show ?case by simp
qed

lemma barFinalArr_sorted_when_defined:
  "\<forall>e\<in>set (barArr ds). b_score e \<noteq> Undefined \<Longrightarrow> non_increasing (barFinalArr ds)"
proof -
  assume a: "\<forall>e\<in>set (barArr ds). b_score e \<noteq> Undefined"
  have num: "\<exists>r. b_score e = Number (Num r)" if "e \<in> set (barArr ds)" for e
    using a that barArr_score_cases by blast
  have "\<forall>x\<in>set (barArr ds). \<forall>y\<in>set (barArr ds).
      sort_gt by_score_desc x y = (- amount (b_score y) < - amount (b_score x))"
    using num sort_gt_by_score_num by blast
  then have "sorted (map (\<lambda>e. - amount (b_score e)) (js_sort by_score_desc (barArr ds)))"
    by (rule sorted_js_sort)
  moreover have "\<forall>e\<in>set (js_sort by_score_desc (barArr ds)). \<exists>r. b_score e = Number (Num r)"
    unfolding set_js_sort using num by blast
  ultimately have "non_increasing (js_sort by_score_desc (barArr ds))"
    by (rule non_increasing_if_sorted)
  then show ?thesis
    unfolding barFinalArr_def by (rule sorted_wrt_take)
qed

text \<open>
  Claim C3. The order fails when a mean is \<^verbatim>\<open>undefined\<close>: in \<^verbatim>\<open>nan_rows\<close> the only score of
  director A is not a number, the record passes the filter, the mean of A is \<^verbatim>\<open>undefined\<close>,
  and the bar of A stays in front of the bar of B with score \<^verbatim>\<open>9\<close>.
\<close>

theorem undefined_score_breaks_the_order:
  "barFinalArr (load_data nan_rows) =
     [\<lparr> b_director = ''A'', b_score = Undefined \<rparr>,
      \<lparr> b_director = ''B'', b_score = Number (Num 9) \<rparr>] \<and>
   \<not> non_increasing (barFinalArr (load_data nan_rows))"
  by (simp add: barFinalArr_nan_rows js_ge_def)

section \<open>Properties of the scales\<close>

text \<open>
  For a domain of two different numbers the linear scale is the affine map through the
  two pairs of bounds, whichever bound of the domain is the larger.
\<close>

lemma scaleLinear_affine:
  "d0 \<noteq> d1 \<Longrightarrow>
   scaleLinear (Number (Num d0), Number (Num d1)) (Num r0, Num r1) (Number (Num x)) =
     Number (Num (r0 + (x - d0) / (d1 - d0) * (r1 - r0)))"
proof -
  assume n: "d0 \<noteq> d1"
  define t where "t = (x - d0) / (d1 - d0)"
  have c: "(x - d1) / (d0 - d1) = 1 - t"
    using n by (simp add: t_def field_simps)
  show ?thesis
  proof (cases "d1 < d0")
    case True
    then have v: "scaleLinear (Number (Num d0), Number (Num d1)) (Num r0, Num r1) (Number (Num x)) =
        Number (Num (r1 * (1 - (x - d1) / (d0 - d1)) + r0 * ((x - d1) / (d0 - d1))))"
      by (simp add: scaleLinear_def bimap_def normalize_def interpolateNumber_def Let_def)
    have "r1 * (1 - (x - d1) / (d0 - d1)) + r0 * ((x - d1) / (d0 - d1)) = r0 + t * (r1 - r0)"
      unfolding c by (simp add: algebra_simps)
    then show ?thesis unfolding v by (simp only: t_def)
  next
    case False
    with n have v: "scaleLinear (Number (Num d0), Number (Num d1)) (Num r0, Num r1) (Number (Num x)) =
        Number (Num (r0 * (1 - (x - d0) / (d1 - d0)) + r1 * ((x - d0) / (d1 - d0))))"
      by (simp add: scaleLinear_def bimap_def normalize_def interpolateNumber_def Let_def)
    have "r0 * (1 - t) + r1 * t = r0 + t * (r1 - r0)"
      by (simp add: algebra_simps)
    then show ?thesis unfolding v by (simp only: t_def)
  qed
qed

lemma d3_max_sample_rows: "d3_max l_year (lineData (load_data sample_rows)) = Number (Num 2012)"
  unfolding lineData_sample_rows by (simp add: d3_max_def max_step_def js_lt_def js_ge_def)

text \<open>
  Claim C5. For a domain of two different numbers, the linear scale sends the first domain
  bound to the first range bound and the second domain bound to the second range bound.
\<close>

theorem linear_scale_endpoints:
  "d0 \<noteq> d1 \<Longrightarrow>
   scaleLinear (Number (Num d0), Number (Num d1)) (Num r0, Num r1) (Number (Num d0)) = Number (Num r0) \<and>
   scaleLinear (Number (Num d0), Number (Num d1)) (Num r0, Num r1) (Number (Num d1)) = Number (Num r1)"
  by (simp add: scaleLinear_def bimap_def normalize_def interpolateNumber_def Let_def)

text \<open>The scale of the years of \<^verbatim>\<open>sample_rows\<close> has the domain \<^verbatim>\<open>[2010, 2012]\<close>.\<close>

theorem linear_scale_endpoints_witness:
  "(2010::real) \<noteq> 2012 \<and>
   xYear (lineData (load_data sample_rows)) (Number (Num 2010)) = Number (Num 0) \<and>
   xYear (lineData (load_data sample_rows)) (Number (Num 2012)) = Number (Num 700)"
  using linear_scale_endpoints [of 2010 2012 0 width]
  by (simp add: xYear_def d3_max_sample_rows width_def margin_left_def margin_right_def)

text \<open>
  Claim C6, as stated, fails. All the years of \<^verbatim>\<open>three_records\<close> are 2010, so the domain of
  the scale of the years is the single point \<^verbatim>\<open>[2010, 2010]\<close>; its range is \<^verbatim>\<open>[0, 700]\<close>, and it
  maps \<^verbatim>\<open>2010\<close> to \<^verbatim>\<open>350\<close>, not to the range minimum \<^verbatim>\<open>0\<close>.
\<close>

theorem single_point_domain_counterexample:
  "d3_max l_year (lineData three_records) = Number (Num 2010) \<and>
   xYear (lineData three_records) (Number (Num 2010)) = Number (Num 350) \<and>
   xYear (lineData three_records) (Number (Num 2010)) \<noteq> Number (Num 0)"
  unfolding lineData_three_records
  by (simp add: xYear_def d3_max_def max_step_def js_lt_def js_ge_def scaleLinear_def bimap_def
      normalize_def interpolateNumber_def width_def margin_left_def margin_right_def)

text \<open>
  Claim C6, amended. When both domain bounds are the same number, the linear scale divides
  by nothing and maps every number to the midpoint of its range.
\<close>

theorem single_point_domain_midpoint:
  "scaleLinear (Number (Num d), Number (Num d)) (Num r0, Num r1) (Number (Num x)) =
     Number (Num ((r0 + r1) / 2))"
  by (simp add: scaleLinear_def bimap_def normalize_def interpolateNumber_def Let_def field_simps)

theorem single_point_domain_midpoint_witness:
  "scaleLinear (Number (Num 2010), Number (Num 2010)) (Num 0, Num 700) (Number (Num 2013)) =
     Number (Num 350)"
  using single_point_domain_midpoint [of 2010 0 700 2013] by simp

text \<open>
  Claim C7, as stated, fails: on the empty dataset the band scale of the bar chart has no
  category, and its bandwidth is not zero.
\<close>

theorem empty_input_counterexample:
  "band_width (barXScale (barFinalArr (load_data []))) \<noteq> 0"
  by (simp add: barXScale_def scaleBand_def load_data_def barFinalArr_def barArr_def barMap_def
      barCleanData_def d3_rollup_def d3_groups_def js_sort_def width_def margin_left_def
      margin_right_def Let_def)

text \<open>
  Claim C7, amended. On the empty dataset both aggregations are empty; the three linear
  scales built from them map every number to \<^verbatim>\<open>NaN\<close>, and the band scale maps every name
  to \<^verbatim>\<open>undefined\<close> and has the bandwidth \<^verbatim>\<open>630\<close>, nine tenths of the chart's width. No
  operation on the way can raise.
\<close>

theorem empty_input:
  "lineData (load_data []) = [] \<and> barFinalArr (load_data []) = [] \<and>
   xYear (lineData (load_data [])) (Number (Num x)) = Number NaN \<and>
   yGross (lineData (load_data [])) (Number (Num x)) = Number NaN \<and>
   barYScale (barFinalArr (load_data [])) (Number (Num x)) = Number NaN \<and>
   band_apply (barXScale (barFinalArr (load_data []))) name = Undefined \<and>
   band_width (barXScale (barFinalArr (load_data []))) = 630"
proof -
  have l: "lineData (load_data []) = []"
    by (simp add: lineData_def sumGrossByYear_def lineCleanData_def load_data_def
        d3_rollup_def d3_groups_def js_sort_def)
  have b: "barFinalArr (load_data []) = []"
    by (simp add: barFinalArr_def barArr_def barMap_def barCleanData_def load_data_def
        d3_rollup_def d3_groups_def js_sort_def)
  have s: "scaleLinear (Number (Num a), Undefined) (Num r0, Num r1) (Number (Num x)) = Number NaN"
    for a r0 r1
    by (simp add: scaleLinear_def bimap_def normalize_def interpolateNumber_def Let_def)
  show ?thesis
    unfolding l b
    by (simp add: s xYear_def yGross_def barYScale_def d3_max_def band_apply_def barXScale_def
        scaleBand_def width_def margin_left_def margin_right_def Let_def)
qed

theorem empty_input_witness:
  "lineData (load_data []) = [] \<and> barFinalArr (load_data []) = [] \<and>
   xYear (lineData (load_data [])) (Number (Num 2010)) = Number NaN \<and>
   yGross (lineData (load_data [])) (Number (Num 2010)) = Number NaN \<and>
   barYScale (barFinalArr (load_data [])) (Number (Num 2010)) = Number NaN \<and>
   band_apply (barXScale (barFinalArr (load_data []))) ''A'' = Undefined \<and>
   band_width (barXScale (barFinalArr (load_data []))) = 630"
  by (rule empty_input [of 2010 "''A''"])

end
